theory Spec2Isabelle
  imports Complex_Main
begin

unbundle bit_operations_syntax

section \<open>Conventions of the embedding\<close>

text \<open>
  The repository holds two parallel module trees: \<^verbatim>\<open>material_color_utilities\<close>
  (snake_case names) and \<^verbatim>\<open>material_color_utilities_python\<close> (camelCase names).
  Both are embedded; a function of the second tree whose name also occurs in the first
  carries the suffix \<open>_python\<close>.

  Python's \<^verbatim>\<open>int\<close> is \<^typ>\<open>int\<close>. Python's \<^verbatim>\<open>float\<close> is idealised as
  \<^typ>\<open>real\<close>: rounding error, infinities and NaN of IEEE arithmetic are outside the
  model. The \<^verbatim>\<open>@njit\<close> decorators are compilation hints and are not modelled.
  A three-element array is a triple, a 3x3 array a triple of rows.
\<close>

type_synonym vec3 = "real \<times> real \<times> real"
type_synonym mat3 = "vec3 \<times> vec3 \<times> vec3"

section \<open>utils/math\_utils.py (snake\_case tree)\<close>

definition signum :: "real \<Rightarrow> real" where
  "signum num = (if num < 0 then -1 else if num = 0 then 0 else 1)"

definition lerp :: "real \<Rightarrow> real \<Rightarrow> real \<Rightarrow> real" where
  "lerp start stop amount = (1 - amount) * start + amount * stop"

definition clamp_int :: "int \<Rightarrow> int \<Rightarrow> int \<Rightarrow> int" where
  "clamp_int mn mx input = (if input < mn then mn else if input > mx then mx else input)"

definition clamp_double :: "real \<Rightarrow> real \<Rightarrow> real \<Rightarrow> real" where
  "clamp_double mn mx input = (if input < mn then mn else if input > mx then mx else input)"

text \<open>Python's \<^verbatim>\<open>%\<close> on floats with a positive divisor: the remainder has the
  sign of the divisor.\<close>

definition py_fmod :: "real \<Rightarrow> real \<Rightarrow> real" where
  "py_fmod x y = x - y * of_int \<lfloor>x / y\<rfloor>"

definition sanitize_degrees_int :: "int \<Rightarrow> int" where
  "sanitize_degrees_int degrees =
     (let degrees = degrees mod 360 in
      if degrees < 0 then degrees + 360 else degrees)"

definition sanitize_degrees_double :: "real \<Rightarrow> real" where
  "sanitize_degrees_double degrees =
     (let degrees = py_fmod degrees 360 in
      if degrees < 0 then degrees + 360 else degrees)"

definition difference_degrees :: "real \<Rightarrow> real \<Rightarrow> real" where
  "difference_degrees a b = 180 - \<bar>\<bar>a - b\<bar> - 180\<bar>"

text \<open>\<^verbatim>\<open>np.dot(row, matrix)\<close> with a one-dimensional \<open>row\<close> sums over the first
  index of \<open>matrix\<close>: component \<open>j\<close> of the result is
  \<open>row[0]*matrix[0][j] + row[1]*matrix[1][j] + row[2]*matrix[2][j]\<close>.\<close>

definition matrix_multiply :: "vec3 \<Rightarrow> mat3 \<Rightarrow> vec3" where
  "matrix_multiply row matrix =
     (case row of (r0, r1, r2) \<Rightarrow>
      case matrix of ((m00, m01, m02), (m10, m11, m12), (m20, m21, m22)) \<Rightarrow>
        (r0 * m00 + r1 * m10 + r2 * m20,
         r0 * m01 + r1 * m11 + r2 * m21,
         r0 * m02 + r1 * m12 + r2 * m22))"

section \<open>utils/math\_utils.py (camelCase tree)\<close>

definition clampInt :: "int \<Rightarrow> int \<Rightarrow> int \<Rightarrow> int" where
  "clampInt mn mx input = (if input < mn then mn else if input > mx then mx else input)"

definition clampDouble :: "real \<Rightarrow> real \<Rightarrow> real \<Rightarrow> real" where
  "clampDouble mn mx input = (if input < mn then mn else if input > mx then mx else input)"

definition differenceDegrees :: "real \<Rightarrow> real \<Rightarrow> real" where
  "differenceDegrees a b = 180 - \<bar>\<bar>a - b\<bar> - 180\<bar>"

definition matrixMultiply :: "vec3 \<Rightarrow> mat3 \<Rightarrow> vec3" where
  "matrixMultiply row matrix =
     (case row of (r0, r1, r2) \<Rightarrow>
      case matrix of ((m00, m01, m02), (m10, m11, m12), (m20, m21, m22)) \<Rightarrow>
        (let a = r0 * m00 + r1 * m01 + r2 * m02;
             b = r0 * m10 + r1 * m11 + r2 * m12;
             c = r0 * m20 + r1 * m21 + r2 * m22
         in (a, b, c)))"

section \<open>utils/color\_utils.py (snake\_case tree)\<close>

definition SRGB_TO_XYZ :: mat3 where
  "SRGB_TO_XYZ =
     ((0.41233895, 0.35762064, 0.18051042),
      (0.2126, 0.7152, 0.0722),
      (0.01932141, 0.11916382, 0.95034478))"

definition XYZ_TO_SRGB :: mat3 where
  "XYZ_TO_SRGB =
     ((3.2413774792388685, -1.5376652402851851, -0.49885366846268053),
      (-0.9691452513005321, 1.8758853451067872, 0.04156585616912061),
      (0.05562093689691305, -0.20395524564742123, 1.0571799111220335))"

definition WHITE_POINT_D65 :: vec3 where
  "WHITE_POINT_D65 = (95.047, 100.0, 108.883)"

definition rshift :: "int \<Rightarrow> nat \<Rightarrow> int" where
  "rshift val n = (if val \<ge> 0 then drop_bit n val else drop_bit n (val + 0x100000000))"

definition argb_from_rgb :: "int \<Rightarrow> int \<Rightarrow> int \<Rightarrow> int" where
  "argb_from_rgb red green blue =
     rshift (push_bit 24 255 OR push_bit 16 (red AND 255) OR push_bit 8 (green AND 255)
             OR (blue AND 255)) 0"

definition alpha_from_argb :: "int \<Rightarrow> int" where
  "alpha_from_argb argb = drop_bit 24 argb AND 255"

definition red_from_argb :: "int \<Rightarrow> int" where
  "red_from_argb argb = drop_bit 16 argb AND 255"

definition green_from_argb :: "int \<Rightarrow> int" where
  "green_from_argb argb = drop_bit 8 argb AND 255"

definition blue_from_argb :: "int \<Rightarrow> int" where
  "blue_from_argb argb = argb AND 255"

text \<open>\<^verbatim>\<open>np.power\<close> and \<^verbatim>\<open>math.pow\<close> are only reached with a positive base in
  the next two functions (the guard of the first branch excludes the rest), where they
  agree with \<open>powr\<close>.\<close>

definition linearized :: "int \<Rightarrow> real" where
  "linearized rgbComponent =
     (let normalized = real_of_int rgbComponent / 255.0 in
      if normalized \<le> 0.040449936 then normalized / 12.92 * 100.0
      else ((normalized + 0.055) / 1.055) powr 2.4 * 100.0)"

text \<open>Python 3's \<^verbatim>\<open>round\<close> of a float: to the nearest integer, a tie to the even
  one.\<close>

definition py_round :: "real \<Rightarrow> int" where
  "py_round x =
     (let f = \<lfloor>x\<rfloor>; d = x - of_int f in
      if d < 1/2 then f else if d > 1/2 then f + 1
      else if even f then f else f + 1)"

definition delinearized :: "real \<Rightarrow> int" where
  "delinearized rgbComponent =
     (let normalized = rgbComponent / 100.0;
          delinearized = (if normalized \<le> 0.0031308 then normalized * 12.92
                          else 1.055 * normalized powr (1.0 / 2.4) - 0.055)
      in clamp_int 0 255 (py_round (delinearized * 255.0)))"

definition argb_from_xyz :: "real \<Rightarrow> real \<Rightarrow> real \<Rightarrow> int" where
  "argb_from_xyz x y z =
     (case XYZ_TO_SRGB of ((m00, m01, m02), (m10, m11, m12), (m20, m21, m22)) \<Rightarrow>
      let linearr = m00 * x + m01 * y + m02 * z;
          linearg = m10 * x + m11 * y + m12 * z;
          linearb = m20 * x + m21 * y + m22 * z;
          r = delinearized linearr;
          g = delinearized linearg;
          b = delinearized linearb
      in argb_from_rgb r g b)"

definition xyz_from_argb :: "int \<Rightarrow> vec3" where
  "xyz_from_argb argb =
     (let r = linearized (red_from_argb argb);
          g = linearized (green_from_argb argb);
          b = linearized (blue_from_argb argb)
      in matrix_multiply (r, g, b) SRGB_TO_XYZ)"

definition lab_invf :: "real \<Rightarrow> real" where
  "lab_invf ft =
     (let e = 216.0 / 24389.0;
          kappa = 24389.0 / 27.0;
          ft3 = ft * ft * ft
      in if ft3 > e then ft3 else (116 * ft - 16) / kappa)"

definition argd_from_lab :: "real \<Rightarrow> real \<Rightarrow> real \<Rightarrow> int" where
  "argd_from_lab l a b =
     (case WHITE_POINT_D65 of (w0, w1, w2) \<Rightarrow>
      let fy = (l + 16.0) / 116.0;
          fx = a / 500.0 + fy;
          fz = fy - b / 200.0;
          xnormalized = lab_invf fx;
          ynormalized = lab_invf fy;
          znormalized = lab_invf fz;
          x = xnormalized * w0;
          y = ynormalized * w1;
          z = znormalized * w2
      in argb_from_xyz x y z)"

definition argb_From_lstar :: "real \<Rightarrow> int" where
  "argb_From_lstar lstar =
     (case WHITE_POINT_D65 of (w0, w1, w2) \<Rightarrow>
      let fy = (lstar + 16.0) / 116.0;
          fz = fy;
          fx = fy;
          kappa = 24389.0 / 27.0;
          epsilon = 216.0 / 24389.0;
          l_exceeds_epsilon_kappa = (lstar > 8.0);
          y = (if l_exceeds_epsilon_kappa then fy * fy * fy else lstar / kappa);
          cube_exceed_epsilon = (fy * fy * fy > epsilon);
          x = (if cube_exceed_epsilon then fx * fx * fx else lstar / kappa);
          z = (if cube_exceed_epsilon then fz * fz * fz else lstar / kappa)
      in argb_from_xyz (x * w0) (y * w1) (z * w2))"

text \<open>\<^verbatim>\<open>math.pow(y, 1.0 / 3.0)\<close> is reached with \<open>y > e > 0\<close> only.\<close>

definition lstar_from_argb :: "int \<Rightarrow> real" where
  "lstar_from_argb argb =
     (let y = fst (snd (xyz_from_argb argb)) / 100.0;
          e = 216.0 / 24389.0
      in if y \<le> e then 24389.0 / 27.0 * y
         else (let y_intermediate = y powr (1.0 / 3.0) in 116.0 * y_intermediate - 16.0))"

section \<open>utils/color\_utils.py (camelCase tree)\<close>

text \<open>The constants \<^verbatim>\<open>SRGB_TO_XYZ\<close>, \<^verbatim>\<open>XYZ_TO_SRGB\<close> and
  \<^verbatim>\<open>WHITE_POINT_D65\<close> of this tree are the same literals as in the first tree and
  are shared.\<close>

definition rshift_python :: "int \<Rightarrow> nat \<Rightarrow> int" where
  "rshift_python val n =
     (if val \<ge> 0 then drop_bit n val else drop_bit n (val + 0x100000000))"

definition argbFromRgb :: "int \<Rightarrow> int \<Rightarrow> int \<Rightarrow> int" where
  "argbFromRgb red green blue =
     rshift_python (push_bit 24 255 OR push_bit 16 (red AND 255)
                    OR push_bit 8 (green AND 255) OR (blue AND 255)) 0"

definition redFromArgb :: "int \<Rightarrow> int" where
  "redFromArgb argb = drop_bit 16 argb AND 255"

definition greenFromArgb :: "int \<Rightarrow> int" where
  "greenFromArgb argb = drop_bit 8 argb AND 255"

definition blueFromArgb :: "int \<Rightarrow> int" where
  "blueFromArgb argb = argb AND 255"

definition linearized_python :: "int \<Rightarrow> real" where
  "linearized_python rgbComponent =
     (let normalized = real_of_int rgbComponent / 255.0 in
      if normalized \<le> 0.040449936 then normalized / 12.92 * 100.0
      else ((normalized + 0.055) / 1.055) powr 2.4 * 100.0)"

definition delinearized_python :: "real \<Rightarrow> int" where
  "delinearized_python rgbComponent =
     (let normalized = rgbComponent / 100.0;
          delinearized = (if normalized \<le> 0.0031308 then normalized * 12.92
                          else 1.055 * normalized powr (1.0 / 2.4) - 0.055)
      in clampInt 0 255 (py_round (delinearized * 255.0)))"

definition argbFromXyz :: "real \<Rightarrow> real \<Rightarrow> real \<Rightarrow> int" where
  "argbFromXyz x y z =
     (case XYZ_TO_SRGB of ((m00, m01, m02), (m10, m11, m12), (m20, m21, m22)) \<Rightarrow>
      let linearR = m00 * x + m01 * y + m02 * z;
          linearG = m10 * x + m11 * y + m12 * z;
          linearB = m20 * x + m21 * y + m22 * z;
          r = delinearized_python linearR;
          g = delinearized_python linearG;
          b = delinearized_python linearB
      in argbFromRgb r g b)"

definition xyzFromArgb :: "int \<Rightarrow> vec3" where
  "xyzFromArgb argb =
     (let r = linearized_python (redFromArgb argb);
          g = linearized_python (greenFromArgb argb);
          b = linearized_python (blueFromArgb argb)
      in matrixMultiply (r, g, b) SRGB_TO_XYZ)"

definition lstarFromArgb :: "int \<Rightarrow> real" where
  "lstarFromArgb argb =
     (let y = fst (snd (xyzFromArgb argb)) / 100.0;
          e = 216.0 / 24389.0
      in if y \<le> e then 24389.0 / 27.0 * y
         else (let yIntermediate = y powr (1.0 / 3.0) in 116.0 * yIntermediate - 16.0))"

section \<open>Exceptions of the floating-point operations\<close>

text \<open>
  The CAM16 code divides by, takes roots of and raises to powers values that depend on
  its arguments. Every such operation is a partial function in Python and returns
  \<open>py_error + real\<close> here:
  \<^item> \<^verbatim>\<open>a / b\<close> raises \<^verbatim>\<open>ZeroDivisionError\<close> when \<open>b\<close> is zero;
  \<^item> \<^verbatim>\<open>math.sqrt\<close> and \<^verbatim>\<open>math.log\<close> raise \<^verbatim>\<open>ValueError\<close> outside
    their domain;
  \<^item> the built-in \<^verbatim>\<open>pow\<close> on floats raises \<^verbatim>\<open>ZeroDivisionError\<close> for a zero
    base with a negative exponent, and returns a \<^verbatim>\<open>complex\<close> for a negative base
    with a non-integral exponent. Complex arithmetic is not modelled: the model stops
    there with \<open>ComplexResult\<close>.
  A division by a non-zero literal stays a plain division.
\<close>

datatype py_error = ZeroDivisionError | ValueError | ComplexResult

definition bind_err :: "py_error + 'a \<Rightarrow> ('a \<Rightarrow> py_error + 'b) \<Rightarrow> py_error + 'b" where
  "bind_err m f = (case m of Inl e \<Rightarrow> Inl e | Inr v \<Rightarrow> f v)"

definition py_div :: "real \<Rightarrow> real \<Rightarrow> py_error + real" where
  "py_div a b = (if b = 0 then Inl ZeroDivisionError else Inr (a / b))"

definition py_sqrt :: "real \<Rightarrow> py_error + real" where
  "py_sqrt x = (if x < 0 then Inl ValueError else Inr (sqrt x))"

definition py_log :: "real \<Rightarrow> py_error + real" where
  "py_log x = (if x \<le> 0 then Inl ValueError else Inr (ln x))"

definition py_pow :: "real \<Rightarrow> real \<Rightarrow> py_error + real" where
  "py_pow x y =
     (if 0 < x then Inr (x powr y)
      else if x = 0 then
        (if 0 < y then Inr 0 else if y = 0 then Inr 1 else Inl ZeroDivisionError)
      else if y = of_int \<lfloor>y\<rfloor> then Inr (x powi \<lfloor>y\<rfloor>)
      else Inl ComplexResult)"

text \<open>\<^verbatim>\<open>math.atan2(y, x)\<close> on the reals (no signed zero).\<close>

definition atan2 :: "real \<Rightarrow> real \<Rightarrow> real" where
  "atan2 y x =
     (if 0 < x then arctan (y / x)
      else if x < 0 then (if 0 \<le> y then arctan (y / x) + pi else arctan (y / x) - pi)
      else if 0 < y then pi / 2 else if y < 0 then - (pi / 2) else 0)"

section \<open>hct/cam16.py\<close>

text \<open>
  Class \<^verbatim>\<open>ViewingConditions\<close> (\<^verbatim>\<open>hct/viewing_conditions.py\<close>) is not among the
  sources. The record below has the attributes that \<^verbatim>\<open>cam16.py\<close> reads, and the
  instance \<^verbatim>\<open>ViewingConditions.DEFAULT\<close> is a parameter \<open>DEFAULT\<close> of every function
  that uses it.
\<close>

record viewing_conditions =
  vc_n :: real
  vc_aw :: real
  vc_nbb :: real
  vc_ncb :: real
  vc_c :: real
  vc_nc :: real
  vc_rgbD :: vec3
  vc_fl :: real
  vc_fLRoot :: real
  vc_z :: real

text \<open>The attributes of a \<^verbatim>\<open>Cam16\<close> object, in the order of \<^verbatim>\<open>__init__\<close>.\<close>

record cam16 =
  cam_hue :: real
  cam_chroma :: real
  cam_j :: real
  cam_q :: real
  cam_m :: real
  cam_s :: real
  cam_jstar :: real
  cam_astar :: real
  cam_bstar :: real

definition Cam16 ::
  "real \<Rightarrow> real \<Rightarrow> real \<Rightarrow> real \<Rightarrow> real \<Rightarrow> real \<Rightarrow> real \<Rightarrow> real \<Rightarrow> real \<Rightarrow> cam16" where
  "Cam16 hue chroma j q m s jstar astar bstar =
     \<lparr>cam_hue = hue, cam_chroma = chroma, cam_j = j, cam_q = q, cam_m = m, cam_s = s,
      cam_jstar = jstar, cam_astar = astar, cam_bstar = bstar\<rparr>"

definition from_int_in_viewing_conditions :: "int \<Rightarrow> viewing_conditions \<Rightarrow> py_error + cam16" where
  "from_int_in_viewing_conditions argb viewing_conditions =
     (case vc_rgbD viewing_conditions of (rgbD0, rgbD1, rgbD2) \<Rightarrow>
      let red = drop_bit 16 (argb AND 0x00ff0000);
          green = drop_bit 8 (argb AND 0x0000ff00);
          blue = argb AND 0x000000ff;
          redL = linearized red;
          greenL = linearized green;
          blueL = linearized blue;
          x = 0.41233895 * redL + 0.35762064 * greenL + 0.18051042 * blueL;
          y = 0.2126 * redL + 0.7152 * greenL + 0.0722 * blueL;
          z = 0.01932141 * redL + 0.11916382 * greenL + 0.95034478 * blueL;
          rC = 0.401288 * x + 0.650173 * y - 0.051461 * z;
          gC = -0.250268 * x + 1.204414 * y + 0.045854 * z;
          bC = -0.002079 * x + 0.048952 * y + 0.953127 * z;
          rD = rgbD0 * rC;
          gD = rgbD1 * gC;
          bD = rgbD2 * bC
      in
      bind_err (py_pow ((vc_fl viewing_conditions * \<bar>rD\<bar>) / 100.0) 0.42) (\<lambda>rAF.
      bind_err (py_pow ((vc_fl viewing_conditions * \<bar>gD\<bar>) / 100.0) 0.42) (\<lambda>gAF.
      bind_err (py_pow ((vc_fl viewing_conditions * \<bar>bD\<bar>) / 100.0) 0.42) (\<lambda>bAF.
      bind_err (py_div (signum rD * 400.0 * rAF) (rAF + 27.13)) (\<lambda>rA.
      bind_err (py_div (signum gD * 400.0 * gAF) (gAF + 27.13)) (\<lambda>gA.
      bind_err (py_div (signum bD * 400.0 * bAF) (bAF + 27.13)) (\<lambda>bA.
      let a = (11.0 * rA + -12.0 * gA + bA) / 11.0;
          b = (rA + gA - 2.0 * bA) / 9.0;
          u = (20.0 * rA + 20.0 * gA + 21.0 * bA) / 20.0;
          p2 = (40.0 * rA + 20.0 * gA + bA) / 20.0;
          atan2_v = atan2 b a;
          atanDegrees = (atan2_v * 180.0) / pi;
          hue = (if atanDegrees < 0 then atanDegrees + 360.0
                 else if atanDegrees \<ge> 360 then atanDegrees - 360.0 else atanDegrees);
          hueRadians = (hue * pi) / 180.0;
          ac = p2 * vc_nbb viewing_conditions
      in
      bind_err (py_div ac (vc_aw viewing_conditions)) (\<lambda>ac_aw.
      bind_err (py_pow ac_aw (vc_c viewing_conditions * vc_z viewing_conditions)) (\<lambda>j_pow.
      let j = 100.0 * j_pow in
      bind_err (py_div 4.0 (vc_c viewing_conditions)) (\<lambda>four_c.
      bind_err (py_sqrt (j / 100.0)) (\<lambda>sqrt_j.
      let q = four_c * sqrt_j * (vc_aw viewing_conditions + 4.0) * vc_fLRoot viewing_conditions;
          huePrime = (if hue < 20.14 then hue + 360 else hue);
          eHue = 0.25 * (cos ((huePrime * pi) / 180.0 + 2.0) + 3.8);
          p1 = (50000.0 / 13.0) * eHue * vc_nc viewing_conditions * vc_ncb viewing_conditions
      in
      bind_err (py_sqrt (a * a + b * b)) (\<lambda>sqrt_ab.
      bind_err (py_div (p1 * sqrt_ab) (u + 0.305)) (\<lambda>t.
      bind_err (py_pow t 0.9) (\<lambda>t_pow.
      bind_err (py_pow 0.29 (vc_n viewing_conditions)) (\<lambda>n_pow.
      bind_err (py_pow (1.64 - n_pow) 0.73) (\<lambda>base_pow.
      let alpha = t_pow * base_pow in
      bind_err (py_sqrt (j / 100.0)) (\<lambda>sqrt_j2.
      let c = alpha * sqrt_j2;
          m = c * vc_fLRoot viewing_conditions
      in
      bind_err (py_div (alpha * vc_c viewing_conditions) (vc_aw viewing_conditions + 4.0)) (\<lambda>s_arg.
      bind_err (py_sqrt s_arg) (\<lambda>s_sqrt.
      let s = 50.0 * s_sqrt in
      bind_err (py_div ((1.0 + 100.0 * 0.007) * j) (1.0 + 0.007 * j)) (\<lambda>jstar.
      bind_err (py_log (1.0 + 0.0228 * m)) (\<lambda>log_m.
      let mstar = (1.0 / 0.0228) * log_m;
          astar = mstar * cos hueRadians;
          bstar = mstar * sin hueRadians
      in Inr (Cam16 hue c j q m s jstar astar bstar))))))))))))))))))))))"

definition from_int :: "viewing_conditions \<Rightarrow> int \<Rightarrow> py_error + cam16" where
  "from_int DEFAULT argb = from_int_in_viewing_conditions argb DEFAULT"

definition fromJch_in_viewing_conditions ::
  "real \<Rightarrow> real \<Rightarrow> real \<Rightarrow> viewing_conditions \<Rightarrow> py_error + cam16" where
  "fromJch_in_viewing_conditions j c h viewing_conditions =
     bind_err (py_div 4.0 (vc_c viewing_conditions)) (\<lambda>four_c.
     bind_err (py_sqrt (j / 100.0)) (\<lambda>sqrt_j.
     let q = four_c * sqrt_j * (vc_aw viewing_conditions + 4.0) * vc_fLRoot viewing_conditions;
         m = c * vc_fLRoot viewing_conditions
     in
     bind_err (py_sqrt (j / 100.0)) (\<lambda>sqrt_j2.
     bind_err (py_div c sqrt_j2) (\<lambda>alpha.
     bind_err (py_div (alpha * vc_c viewing_conditions) (vc_aw viewing_conditions + 4.0)) (\<lambda>s_arg.
     bind_err (py_sqrt s_arg) (\<lambda>s_sqrt.
     let s = 50.0 * s_sqrt;
         hueRadians = (h * pi) / 180.0
     in
     bind_err (py_div ((1.0 + 100.0 * 0.007) * j) (1.0 + 0.007 * j)) (\<lambda>jstar.
     bind_err (py_log (1.0 + 0.0228 * m)) (\<lambda>log_m.
     let mstar = (1.0 / 0.0228) * log_m;
         astar = mstar * cos hueRadians;
         bstar = mstar * sin hueRadians
     in Inr (Cam16 h c j q m s jstar astar bstar)))))))))"

definition fromUcs_in_viewing_conditions ::
  "real \<Rightarrow> real \<Rightarrow> real \<Rightarrow> viewing_conditions \<Rightarrow> py_error + cam16" where
  "fromUcs_in_viewing_conditions jstar astar bstar viewing_conditions =
     (let a = astar;
          b = bstar
      in
      bind_err (py_sqrt (a * a + b * b)) (\<lambda>m.
      let M = (exp (m * 0.0228) - 1.0) / 0.0228 in
      bind_err (py_div M (vc_fLRoot viewing_conditions)) (\<lambda>c.
      let h = atan2 b a * (180.0 / pi);
          h = (if h < 0.0 then h + 360.0 else h)
      in
      bind_err (py_div jstar (1 - (jstar - 100) * 0.007)) (\<lambda>j.
      fromJch_in_viewing_conditions j c h viewing_conditions))))"

definition from_ucs :: "viewing_conditions \<Rightarrow> real \<Rightarrow> real \<Rightarrow> real \<Rightarrow> py_error + cam16" where
  "from_ucs DEFAULT jstar astar bstar =
     fromUcs_in_viewing_conditions jstar astar bstar DEFAULT"

text \<open>
  In \<^verbatim>\<open>viewed\<close> two denominators are computed rather than read from the arguments:
  \<open>23.0 * p1 + 11.0 * t * hCos + 108.0 * t * hSin\<close> and \<open>400.0 - abs(rA)\<close> (and the same
  for \<open>gA\<close>, \<open>bA\<close>). Over the reals a product of non-zero factors is non-zero and a
  difference is zero only for equal operands; in IEEE arithmetic a product can underflow
  to zero and a difference of close operands can round to zero. The model agrees with the
  code on whether such a denominator is zero only while its exact value is well away
  from zero, and statements about \<^verbatim>\<open>viewed\<close> assume so.
\<close>

definition viewed :: "cam16 \<Rightarrow> viewing_conditions \<Rightarrow> py_error + int" where
  "viewed self viewing_conditions =
     (case vc_rgbD viewing_conditions of (rgbD0, rgbD1, rgbD2) \<Rightarrow>
      bind_err
        (if cam_chroma self = 0.0 \<or> cam_j self = 0.0 then Inr 0.0
         else bind_err (py_sqrt (cam_j self / 100.0)) (\<lambda>sqrt_j. py_div (cam_chroma self) sqrt_j))
        (\<lambda>alpha.
      bind_err (py_pow 0.29 (vc_n viewing_conditions)) (\<lambda>n_pow.
      bind_err (py_pow (1.64 - n_pow) 0.73) (\<lambda>base_pow.
      bind_err (py_div alpha base_pow) (\<lambda>alpha_base.
      bind_err (py_pow alpha_base (1.0 / 0.9)) (\<lambda>t.
      let hRad = (cam_hue self * pi) / 180.0;
          eHue = 0.25 * (cos (hRad + 2.0) + 3.8)
      in
      bind_err (py_div 1.0 (vc_c viewing_conditions)) (\<lambda>one_c.
      bind_err (py_div one_c (vc_z viewing_conditions)) (\<lambda>one_c_z.
      bind_err (py_pow (cam_j self / 100.0) one_c_z) (\<lambda>j_pow.
      let ac = vc_aw viewing_conditions * j_pow;
          p1 = eHue * (50000.0 / 13.0) * vc_nc viewing_conditions * vc_ncb viewing_conditions
      in
      bind_err (py_div ac (vc_nbb viewing_conditions)) (\<lambda>p2.
      let hSin = sin hRad;
          hCos = cos hRad
      in
      bind_err (py_div (23.0 * (p2 + 0.305) * t)
                       (23.0 * p1 + 11.0 * t * hCos + 108.0 * t * hSin)) (\<lambda>gamma.
      let a = gamma * hCos;
          b = gamma * hSin;
          rA = (460.0 * p2 + 451.0 * a + 288.0 * b) / 1403.0;
          gA = (460.0 * p2 - 891.0 * a - 261.0 * b) / 1403.0;
          bA = (460.0 * p2 - 220.0 * a - 6300.0 * b) / 1403.0
      in
      bind_err (py_div (27.13 * \<bar>rA\<bar>) (400.0 - \<bar>rA\<bar>)) (\<lambda>rQ.
      let rCBase = max 0 rQ in
      bind_err (py_div 100.0 (vc_fl viewing_conditions)) (\<lambda>r_fl.
      bind_err (py_pow rCBase (1.0 / 0.42)) (\<lambda>r_pow.
      let rC = signum rA * r_fl * r_pow in
      bind_err (py_div (27.13 * \<bar>gA\<bar>) (400.0 - \<bar>gA\<bar>)) (\<lambda>gQ.
      let gCBase = max 0 gQ in
      bind_err (py_div 100.0 (vc_fl viewing_conditions)) (\<lambda>g_fl.
      bind_err (py_pow gCBase (1.0 / 0.42)) (\<lambda>g_pow.
      let gC = signum gA * g_fl * g_pow in
      bind_err (py_div (27.13 * \<bar>bA\<bar>) (400.0 - \<bar>bA\<bar>)) (\<lambda>bQ.
      let bCBase = max 0 bQ in
      bind_err (py_div 100.0 (vc_fl viewing_conditions)) (\<lambda>b_fl.
      bind_err (py_pow bCBase (1.0 / 0.42)) (\<lambda>b_pow.
      let bC = signum bA * b_fl * b_pow in
      bind_err (py_div rC rgbD0) (\<lambda>rF.
      bind_err (py_div gC rgbD1) (\<lambda>gF.
      bind_err (py_div bC rgbD2) (\<lambda>bF.
      let x = 1.86206786 * rF - 1.01125463 * gF + 0.14918677 * bF;
          y = 0.38752654 * rF + 0.62144744 * gF - 0.00897398 * bF;
          z = -0.01584150 * rF - 0.03412294 * gF + 1.04996444 * bF
      in Inr (argb_from_xyz x y z))))))))))))))))))))))))"

definition to_int :: "viewing_conditions \<Rightarrow> cam16 \<Rightarrow> py_error + int" where
  "to_int DEFAULT self = viewed self DEFAULT"

section \<open>blend/blend.py\<close>

text \<open>\<^verbatim>\<open>np.argmin\<close>: the index of the first occurrence of the least element.\<close>

fun argmin_from :: "nat \<Rightarrow> real \<Rightarrow> nat \<Rightarrow> real list \<Rightarrow> nat" where
  "argmin_from best least i [] = best"
| "argmin_from best least i (v # vs) =
     (if v < least then argmin_from i v (Suc i) vs else argmin_from best least (Suc i) vs)"

definition np_argmin :: "real list \<Rightarrow> nat" where
  "np_argmin vs = (case vs of [] \<Rightarrow> 0 | v # vs' \<Rightarrow> argmin_from 0 v 1 vs')"

text \<open>\<^verbatim>\<open>np.sign\<close> is \<open>sgn\<close>. The array \<open>values\<close> has three elements, so the
  index returned by \<^verbatim>\<open>np.argmin\<close> is in range.\<close>

definition rotation_direction :: "real \<Rightarrow> real \<Rightarrow> real" where
  "rotation_direction from_v to =
     (let values = [to - from_v, to - from_v + 360.0, to - from_v - 360.0];
          abs_values = map abs values;
          min_index = np_argmin abs_values
      in sgn (values ! min_index))"

text \<open>
  Class \<^verbatim>\<open>Hct\<close> (\<^verbatim>\<open>hct/hct.py\<close>) is not among the sources. \<^verbatim>\<open>Blend.harmonize\<close>
  reads the attributes \<^verbatim>\<open>hue\<close>, \<^verbatim>\<open>chroma\<close> and \<^verbatim>\<open>tone\<close> of an \<^verbatim>\<open>Hct\<close>
  object and calls \<^verbatim>\<open>Hct.from_int(argb)\<close> and
  \<^verbatim>\<open>Hct.from_hct(hue, chroma, tone).to_int()\<close>. The record has the three attributes;
  the two calls are the parameters \<open>Hct_from_int\<close> and \<open>Hct_from_hct_to_int\<close> of the
  model of \<^verbatim>\<open>harmonize\<close>.
\<close>

record hct =
  hct_hue :: real
  hct_chroma :: real
  hct_tone :: real

definition harmonize ::
  "(int \<Rightarrow> hct) \<Rightarrow> (real \<Rightarrow> real \<Rightarrow> real \<Rightarrow> int) \<Rightarrow> int \<Rightarrow> int \<Rightarrow> int" where
  "harmonize Hct_from_int Hct_from_hct_to_int designColor sourceColor =
     (let from_hct = Hct_from_int designColor;
          to_hct = Hct_from_int sourceColor;
          difference_degrees_v = difference_degrees (hct_hue from_hct) (hct_hue to_hct);
          rotation_degrees = min (difference_degrees_v * 0.5) 15.0;
          output_hue = sanitize_degrees_double
            (hct_hue from_hct
             + rotation_degrees * rotation_direction (hct_hue from_hct) (hct_hue to_hct))
      in Hct_from_hct_to_int output_hue (hct_chroma from_hct) (hct_tone from_hct))"

text \<open>The body of \<^verbatim>\<open>Blend.cam16_ucs\<close> between the two calls of
  \<^verbatim>\<open>Cam16.from_int\<close> and the call of \<^verbatim>\<open>Cam16.from_ucs\<close>: the three coordinates
  handed to \<^verbatim>\<open>from_ucs\<close>. The variable \<open>toa\<close> is assigned twice in the source; the
  second assignment is the one in force afterwards.\<close>

definition cam16_ucs_coordinates :: "cam16 \<Rightarrow> cam16 \<Rightarrow> real \<Rightarrow> real \<times> real \<times> real" where
  "cam16_ucs_coordinates from_cam to_cam amount =
     (let fromj = cam_jstar from_cam;
          froma = cam_astar from_cam;
          fromb = cam_bstar from_cam;
          toj = cam_jstar to_cam;
          toa = cam_astar to_cam;
          toa = cam_bstar to_cam;
          jstar = fromj + (toj - fromj) * amount;
          astar = froma + (toa - froma) * amount;
          bstar = fromb + (toa - fromb) * amount
      in (jstar, astar, bstar))"

definition cam16_ucs :: "viewing_conditions \<Rightarrow> int \<Rightarrow> int \<Rightarrow> real \<Rightarrow> py_error + int" where
  "cam16_ucs DEFAULT from_v to amount =
     bind_err (from_int DEFAULT from_v) (\<lambda>from_cam.
     bind_err (from_int DEFAULT to) (\<lambda>to_cam.
     case cam16_ucs_coordinates from_cam to_cam amount of (jstar, astar, bstar) \<Rightarrow>
     bind_err (from_ucs DEFAULT jstar astar bstar) (\<lambda>cam.
     to_int DEFAULT cam)))"

section \<open>Auxiliary facts\<close>

lemmas shared_defs = SRGB_TO_XYZ_def XYZ_TO_SRGB_def py_round_def Let_def

lemmas snake_case_defs =
  xyz_from_argb_def red_from_argb_def green_from_argb_def blue_from_argb_def
  linearized_def matrix_multiply_def argb_from_xyz_def delinearized_def clamp_int_def
  argb_from_rgb_def rshift_def

lemmas camelCase_defs =
  xyzFromArgb_def redFromArgb_def greenFromArgb_def blueFromArgb_def
  linearized_python_def matrixMultiply_def argbFromXyz_def delinearized_python_def
  clampInt_def argbFromRgb_def rshift_python_def

lemma bind_err_Inr [simp]: "bind_err (Inr v) f = f v"
  by (simp add: bind_err_def)

lemma bind_err_Inl [simp]: "bind_err (Inl e) f = Inl e"
  by (simp add: bind_err_def)

lemma py_pow_nonneg: "0 \<le> x \<Longrightarrow> 0 < y \<Longrightarrow> py_pow x y = Inr (x powr y)"
  by (simp add: py_pow_def)

lemma py_pow_pos: "0 < x \<Longrightarrow> py_pow x y = Inr (x powr y)"
  by (simp add: py_pow_def)

subsection \<open>Packing and unpacking of channels\<close>

lemma packed_nonneg:
  "0 \<le> (push_bit 24 255 OR push_bit 16 (r AND 255) OR push_bit 8 (g AND 255)
         OR (b AND 255) :: int)"
  by simp

lemma argb_from_rgb_eq:
  "argb_from_rgb r g b =
     push_bit 24 255 OR push_bit 16 (r AND 255) OR push_bit 8 (g AND 255) OR (b AND 255)"
  unfolding argb_from_rgb_def rshift_def using packed_nonneg [of r g b] by simp

lemma mask_8: "(255::int) = mask 8"
  by (simp add: mask_eq_exp_minus_1)

lemma and_255_take_bit: "(x::int) AND 255 = take_bit 8 x"
  by (simp add: mask_8 take_bit_eq_mask)

lemma channel_byte: "0 \<le> (x::int) AND 255 \<and> x AND 255 \<le> 255"
  unfolding and_255_take_bit using take_bit_int_less_exp [of 8 x] by simp

lemma channel_self: "0 \<le> x \<Longrightarrow> x \<le> 255 \<Longrightarrow> (x::int) AND 255 = x"
  unfolding and_255_take_bit by (simp add: take_bit_int_eq_self)

lemma red_from_argb_packed: "red_from_argb (argb_from_rgb r g b) = r AND 255"
  unfolding argb_from_rgb_eq red_from_argb_def and_255_take_bit
  by (rule bit_eqI) (auto simp add: bit_simps)

lemma green_from_argb_packed: "green_from_argb (argb_from_rgb r g b) = g AND 255"
  unfolding argb_from_rgb_eq green_from_argb_def and_255_take_bit
  by (rule bit_eqI) (auto simp add: bit_simps)

lemma blue_from_argb_packed: "blue_from_argb (argb_from_rgb r g b) = b AND 255"
  unfolding argb_from_rgb_eq blue_from_argb_def and_255_take_bit
  by (rule bit_eqI) (auto simp add: bit_simps)

lemma alpha_from_argb_packed: "alpha_from_argb (argb_from_rgb r g b) = 255"
  unfolding argb_from_rgb_eq alpha_from_argb_def and_255_take_bit
  by (rule bit_eqI) (auto simp add: bit_simps)

lemma argb_from_rgb_sum:
  "argb_from_rgb r g b = 4278190080 + 65536 * (r AND 255) + 256 * (g AND 255) + (b AND 255)"
proof -
  have "argb_from_rgb r g b = concat_bit 8 b (concat_bit 8 g (concat_bit 8 r (mask 8)))"
    unfolding argb_from_rgb_eq and_255_take_bit mask_8
    by (rule bit_eqI) (auto simp add: bit_simps)
  also have "\<dots> = take_bit 8 b + 256 * (take_bit 8 g + 256 * (take_bit 8 r + 256 * 255))"
    by (simp add: concat_bit_eq push_bit_eq_mult flip: mask_8)
  finally show ?thesis by (simp add: and_255_take_bit)
qed

lemma delinearized_range: "0 \<le> delinearized c \<and> delinearized c \<le> 255"
  by (simp add: delinearized_def clamp_int_def Let_def)

lemma argb_from_rgb_channels:
  assumes "0 \<le> r" "r \<le> 255" "0 \<le> g" "g \<le> 255" "0 \<le> b" "b \<le> 255"
  shows "argb_from_rgb r g b = 4278190080 + 65536 * r + 256 * g + b"
    and "alpha_from_argb (argb_from_rgb r g b) = 255"
    and "red_from_argb (argb_from_rgb r g b) = r"
    and "green_from_argb (argb_from_rgb r g b) = g"
    and "blue_from_argb (argb_from_rgb r g b) = b"
proof -
  show "argb_from_rgb r g b = 4278190080 + 65536 * r + 256 * g + b"
    using assms by (simp add: argb_from_rgb_sum channel_self)
  show "alpha_from_argb (argb_from_rgb r g b) = 255"
    by (rule alpha_from_argb_packed)
  show "red_from_argb (argb_from_rgb r g b) = r"
    using assms by (simp add: red_from_argb_packed channel_self)
  show "green_from_argb (argb_from_rgb r g b) = g"
    using assms by (simp add: green_from_argb_packed channel_self)
  show "blue_from_argb (argb_from_rgb r g b) = b"
    using assms by (simp add: blue_from_argb_packed channel_self)
qed

lemma argb_from_xyz_channels:
  "\<exists>r g b. 0 \<le> r \<and> r \<le> 255 \<and> 0 \<le> g \<and> g \<le> 255 \<and> 0 \<le> b \<and> b \<le> 255
     \<and> argb_from_xyz x y z = 4278190080 + 65536 * r + 256 * g + b
     \<and> alpha_from_argb (argb_from_xyz x y z) = 255
     \<and> red_from_argb (argb_from_xyz x y z) = r
     \<and> green_from_argb (argb_from_xyz x y z) = g
     \<and> blue_from_argb (argb_from_xyz x y z) = b"
proof -
  obtain r g b where eq: "argb_from_xyz x y z = argb_from_rgb (delinearized r) (delinearized g) (delinearized b)"
    by (simp add: argb_from_xyz_def XYZ_TO_SRGB_def Let_def)
  show ?thesis
    unfolding eq
    using argb_from_rgb_channels [of "delinearized r" "delinearized g" "delinearized b"]
      delinearized_range [of r] delinearized_range [of g] delinearized_range [of b]
    by blast
qed

subsection \<open>The cube root of the luminance of white in the snake\_case tree\<close>

lemma cube_root_bound: "61 < 58 * (59599223 / 50000000) powr (1 / 3 :: real)"
proof -
  have "((61 / 58 :: real) ^ 3) powr (1 / 3) < (59599223 / 50000000) powr (1 / 3)"
    by (rule powr_less_mono2) (simp_all add: power3_eq_cube)
  moreover have "((61 / 58 :: real) ^ 3) powr (1 / 3) = 61 / 58"
    by (simp add: powr_powr flip: powr_numeral)
  ultimately show ?thesis by simp
qed

subsection \<open>The direction of rotation\<close>

lemma rotation_direction_cases:
  "rotation_direction f t =
     sgn (if \<bar>t - f + 360\<bar> < \<bar>t - f\<bar>
          then (if \<bar>t - f - 360\<bar> < \<bar>t - f + 360\<bar> then t - f - 360 else t - f + 360)
          else if \<bar>t - f - 360\<bar> < \<bar>t - f\<bar> then t - f - 360 else t - f)"
  unfolding rotation_direction_def np_argmin_def Let_def
  by (simp add: numeral_2_eq_2)

lemma rotation_direction_minimal:
  "\<exists>v. (v = t - f \<or> v = t - f + 360 \<or> v = t - f - 360)
      \<and> \<bar>v\<bar> \<le> \<bar>t - f\<bar> \<and> \<bar>v\<bar> \<le> \<bar>t - f + 360\<bar> \<and> \<bar>v\<bar> \<le> \<bar>t - f - 360\<bar>
      \<and> rotation_direction f t = sgn v"
proof -
  define d where "d = t - f"
  consider (plus) "\<bar>d + 360\<bar> < \<bar>d\<bar>" | (minus) "\<not> \<bar>d + 360\<bar> < \<bar>d\<bar>" "\<bar>d - 360\<bar> < \<bar>d\<bar>"
    | (zero) "\<not> \<bar>d + 360\<bar> < \<bar>d\<bar>" "\<not> \<bar>d - 360\<bar> < \<bar>d\<bar>"
    by blast
  then have "\<exists>v. (v = d \<or> v = d + 360 \<or> v = d - 360)
      \<and> \<bar>v\<bar> \<le> \<bar>d\<bar> \<and> \<bar>v\<bar> \<le> \<bar>d + 360\<bar> \<and> \<bar>v\<bar> \<le> \<bar>d - 360\<bar>
      \<and> rotation_direction f t = sgn v"
  proof cases
    case plus
    then have "\<not> \<bar>d - 360\<bar> < \<bar>d + 360\<bar>" by linarith
    with plus have "rotation_direction f t = sgn (d + 360)"
      by (simp add: rotation_direction_cases d_def)
    moreover have "\<bar>d + 360\<bar> \<le> \<bar>d\<bar>" "\<bar>d + 360\<bar> \<le> \<bar>d - 360\<bar>" using plus by linarith+
    ultimately show ?thesis by blast
  next
    case minus
    then have "rotation_direction f t = sgn (d - 360)"
      by (simp add: rotation_direction_cases d_def)
    moreover have "\<bar>d - 360\<bar> \<le> \<bar>d\<bar>" "\<bar>d - 360\<bar> \<le> \<bar>d + 360\<bar>" using minus by linarith+
    ultimately show ?thesis by blast
  next
    case zero
    then have "rotation_direction f t = sgn d"
      by (simp add: rotation_direction_cases d_def)
    moreover have "\<bar>d\<bar> \<le> \<bar>d + 360\<bar>" "\<bar>d\<bar> \<le> \<bar>d - 360\<bar>" using zero by linarith+
    ultimately show ?thesis by blast
  qed
  then show ?thesis by (simp add: d_def)
qed

text \<open>
  \<^verbatim>\<open>harmonize\<close> hands to \<^verbatim>\<open>Hct.from_hct\<close> the rotated hue together with the chroma
  and the tone of \<^verbatim>\<open>Hct.from_int(designColor)\<close> as they are. Which colour \<^verbatim>\<open>Hct\<close>
  resolves that triple to, and with which chroma and tone, is decided in
  \<^verbatim>\<open>hct/hct.py\<close> and is not part of this model.
\<close>

lemma harmonize_request:
  "harmonize F G d s =
     G (sanitize_degrees_double
          (hct_hue (F d)
           + min (0.5 * difference_degrees (hct_hue (F d)) (hct_hue (F s))) 15
             * rotation_direction (hct_hue (F d)) (hct_hue (F s))))
       (hct_chroma (F d)) (hct_tone (F d))"
  by (simp add: harmonize_def Let_def mult.commute)

text \<open>With the same colour on both sides the rotation is zero degrees, and
  \<^verbatim>\<open>harmonize\<close> hands the colour's own hue (sanitized), chroma and tone to
  \<^verbatim>\<open>Hct.from_hct\<close>.\<close>

lemma harmonize_same_color:
  "harmonize F G c c =
     G (sanitize_degrees_double (hct_hue (F c))) (hct_chroma (F c)) (hct_tone (F c))"
  by (simp add: harmonize_request rotation_direction_cases difference_degrees_def)

subsection \<open>\<^verbatim>\<open>Cam16.viewed\<close> on an achromatic or black colour\<close>

lemma eHue_pos: "0 < 0.25 * (cos x + 3.8 :: real)"
proof -
  have "- 1 \<le> cos x" by (rule cos_ge_minus_one)
  then have "0 < cos x + 19 / 5" by linarith
  then show ?thesis by simp
qed

lemma base_pos: "0 \<le> n \<Longrightarrow> 0 < 1.64 - (0.29 :: real) powr n"
proof -
  assume "0 \<le> n"
  then have "(0.29 :: real) powr n \<le> 1" by (simp add: powr_le1)
  then show ?thesis by simp
qed

lemma viewed_achromatic:
  fixes self :: cam16 and vc :: viewing_conditions
  defines "p2 \<equiv> vc_aw vc * (cam_j self / 100) powr (1 / vc_c vc / vc_z vc) / vc_nbb vc"
  assumes guard: "cam_chroma self = 0 \<or> cam_j self = 0"
    and j: "0 \<le> cam_j self"
    and n: "0 \<le> vc_n vc"
    and c: "0 < vc_c vc" and z: "0 < vc_z vc"
    and nbb: "vc_nbb vc \<noteq> 0" and nc: "vc_nc vc \<noteq> 0" and ncb: "vc_ncb vc \<noteq> 0"
    and fl: "vc_fl vc \<noteq> 0"
    and rgbD: "vc_rgbD vc = (d0, d1, d2)" "d0 \<noteq> 0" "d1 \<noteq> 0" "d2 \<noteq> 0"
  shows "\<bar>p2\<bar> \<noteq> 1220 \<Longrightarrow> \<exists>argb. viewed self vc = Inr argb"
    and "\<bar>p2\<bar> = 1220 \<Longrightarrow> viewed self vc = Inl ZeroDivisionError"
proof -
  have B: "py_pow 0.29 (vc_n vc) = Inr (0.29 powr vc_n vc)"
    "py_pow (1.64 - 0.29 powr vc_n vc) 0.73 = Inr ((1.64 - 0.29 powr vc_n vc) powr 0.73)"
    "(1.64 - 0.29 powr vc_n vc) powr 0.73 \<noteq> 0"
    using base_pos [OF n] by (simp_all add: py_pow_pos)
  have e: "0 < 1 / vc_c vc / vc_z vc"
    using c z by simp
  have jp: "py_pow (cam_j self / 100) (1 / vc_c vc / vc_z vc)
      = Inr ((cam_j self / 100) powr (1 / vc_c vc / vc_z vc))"
    using j e by (simp add: py_pow_nonneg)
  have p1: "0.25 * (cos (cam_hue self * pi / 180 + 2) + 3.8) \<noteq> 0"
    using eHue_pos [of "cam_hue self * pi / 180 + 2"] by simp
  have pw: "\<And>x::real. py_pow (max 0 x) (1 / 0.42) = Inr (max 0 x powr (1 / 0.42))"
    by (rule py_pow_nonneg) simp_all
  have scale: "\<bar>460 * p2\<bar> = 561200 \<longleftrightarrow> \<bar>p2\<bar> = 1220"
    by (simp add: abs_mult)
  show "\<exists>argb. viewed self vc = Inr argb" if "\<bar>p2\<bar> \<noteq> 1220"
    unfolding viewed_def rgbD
    using that [folded scale, unfolded p2_def] guard B c z nbb nc ncb fl rgbD(2-) p1 e jp pw
    by (simp add: py_div_def py_pow_nonneg Let_def abs_mult)
  show "viewed self vc = Inl ZeroDivisionError" if "\<bar>p2\<bar> = 1220"
    unfolding viewed_def rgbD
    using that [folded scale, unfolded p2_def] guard B c z nbb nc ncb fl rgbD(2-) p1 e jp pw
    by (simp add: py_div_def py_pow_nonneg Let_def abs_mult)
qed


section \<open>The round trip ARGB to XYZ to ARGB in the camelCase tree\<close>

text \<open>
  In the camelCase tree the product of \<^verbatim>\<open>XYZ_TO_SRGB\<close> and \<^verbatim>\<open>SRGB_TO_XYZ\<close> differs
  from the identity by less than one part in ten to the sixteenth in every entry, and
  \<^verbatim>\<open>delinearized\<close> inverts \<^verbatim>\<open>linearized\<close> on every channel value with a margin far
  above that. The round trip is therefore the identity on every opaque colour.
\<close>

subsection \<open>Rounding\<close>

lemma py_round_near:
  assumes "\<bar>x - of_int v\<bar> < 1 / 2"
  shows "py_round x = v"
proof -
  from assms have up: "x < of_int v + 1 / 2" and down: "of_int v - 1 / 2 < x"
    by linarith+
  consider (lo) "x < of_int v" | (hi) "of_int v \<le> x" by linarith
  then show ?thesis
  proof cases
    case lo
    have "\<lfloor>x\<rfloor> = v - 1"
    proof (rule floor_unique)
      show "of_int (v - 1) \<le> x" using down by simp
      show "x < of_int (v - 1) + 1" using lo by simp
    qed
    with down lo show ?thesis by (simp add: py_round_def Let_def)
  next
    case hi
    have "\<lfloor>x\<rfloor> = v"
    proof (rule floor_unique)
      show "of_int v \<le> x" by (rule hi)
      show "x < of_int v + 1" using up by simp
    qed
    with up hi show ?thesis by (simp add: py_round_def Let_def) 
  qed
qed

subsection \<open>The inverse power function under a small perturbation\<close>

lemma powr_root_perturbation:
  fixes t h a d :: real
  assumes t: "0 < t" "t \<le> 1" and h: "0 < h" "h < t" and a: "1 \<le> a"
    and d: "\<bar>d\<bar> \<le> h * t powr a"
  shows "\<bar>(t powr a + d) powr (1 / a) - t\<bar> \<le> h"
proof -
  have ta: "0 < t powr a" using t by simp
  have ht: "h \<le> h / t" using t h by (simp add: field_simps)
  have inv: "\<And>x::real. 0 \<le> x \<Longrightarrow> (x powr a) powr (1 / a) = x"
    using a by (simp add: powr_powr)
  have upper: "t powr a + d \<le> (t + h) powr a"
  proof -
    have "t powr a + d \<le> t powr a * (1 + h)"
      using d by (simp add: algebra_simps)
    also have "\<dots> \<le> t powr a * (1 + h / t)"
      using ta ht by (intro mult_left_mono) simp_all
    also have "1 + h / t = (1 + h / t) powr 1"
      using t h by simp
    also have "t powr a * (1 + h / t) powr 1 \<le> t powr a * (1 + h / t) powr a"
      using ta a t h by (intro mult_left_mono powr_mono) simp_all
    also have "\<dots> = (t * (1 + h / t)) powr a"
      by (simp add: powr_mult)
    finally have "t powr a + d \<le> (t * (1 + h / t)) powr a" .
    moreover have "t * (1 + h / t) = t + h"
      using t by (simp add: field_simps)
    ultimately show ?thesis by simp
  qed
  have lower: "(t - h) powr a \<le> t powr a + d"
  proof -
    have x: "0 \<le> 1 - h / t" "1 - h / t \<le> 1"
      using t h by (simp_all add: field_simps)
    have "t - h = t * (1 - h / t)"
      using t by (simp add: field_simps)
    then have "(t - h) powr a = (t * (1 - h / t)) powr a"
      by simp
    also have "\<dots> = t powr a * (1 - h / t) powr a"
      by (simp add: powr_mult)
    also have "\<dots> \<le> t powr a * (1 - h / t) powr 1"
      using ta a x by (intro mult_left_mono powr_mono') simp_all
    also have "(1 - h / t) powr 1 = 1 - h / t"
      using x by simp
    also have "t powr a * (1 - h / t) \<le> t powr a * (1 - h)"
      using ta ht by (intro mult_left_mono) simp_all
    also have "\<dots> \<le> t powr a + d"
      using d by (simp add: algebra_simps)
    finally show ?thesis .
  qed
  have "0 \<le> (t - h) powr a" by simp
  with lower have nonneg: "0 \<le> t powr a + d" by linarith
  have "(t powr a + d) powr (1 / a) \<le> ((t + h) powr a) powr (1 / a)"
    using upper nonneg a by (intro powr_mono2) simp_all
  moreover have "((t - h) powr a) powr (1 / a) \<le> (t powr a + d) powr (1 / a)"
    using lower a by (intro powr_mono2) simp_all
  ultimately show ?thesis
    using inv [of "t + h"] inv [of "t - h"] t h by simp
qed

subsection \<open>\<^verbatim>\<open>delinearized\<close> inverts \<^verbatim>\<open>linearized\<close>\<close>

lemma delinearized_python_low:
  "x / 100 \<le> 0.0031308 \<Longrightarrow>
     delinearized_python x = clampInt 0 255 (py_round (x / 100 * 12.92 * 255))"
  by (simp add: delinearized_python_def Let_def)

lemma delinearized_python_high:
  "\<not> x / 100 \<le> 0.0031308 \<Longrightarrow>
     delinearized_python x
       = clampInt 0 255 (py_round ((1.055 * (x / 100) powr (1 / 2.4) - 0.055) * 255))"
  by (simp add: delinearized_python_def Let_def)

lemma delinearized_linearized_low:
  assumes v: "0 \<le> v" "v \<le> 10" and e: "\<bar>e\<bar> \<le> 1 / 10000000000"
  shows "delinearized_python (linearized_python v + e) = v"
proof -
  have n: "real_of_int v / 255 \<le> 0.040449936"
    using v by simp
  have L: "linearized_python v = real_of_int v / 255 / 12.92 * 100"
    using n by (simp add: linearized_python_def Let_def)
  have small: "(linearized_python v + e) / 100 \<le> 0.0031308"
    using v e unfolding L by simp
  have arg: "(linearized_python v + e) / 100 * 12.92 * 255 = real_of_int v + e * 32.946"
    unfolding L by (simp add: field_simps)
  have "py_round (real_of_int v + e * 32.946) = v"
    using e by (intro py_round_near) simp
  with v show ?thesis
    unfolding delinearized_python_low [OF small] arg by (simp add: clampInt_def)
qed

lemma t0_bound: "(0.0033 :: real) < (1001 / 10761) powr 2.4"
proof -
  have "((0.0033 :: real) ^ 5) powr (1 / 5) < ((1001 / 10761) ^ 12) powr (1 / 5)"
    by (rule powr_less_mono2) (simp_all add: power_divide)
  moreover have "((0.0033 :: real) ^ 5) powr (1 / 5) = 0.0033"
    by (simp add: powr_powr flip: powr_numeral)
  moreover have "(((1001 / 10761) :: real) ^ 12) powr (1 / 5) = (1001 / 10761) powr 2.4"
    by (simp add: powr_powr flip: powr_numeral)
  ultimately show ?thesis by simp
qed

lemma delinearized_linearized_high:
  assumes v: "11 \<le> v" "v \<le> 255" and e: "\<bar>e\<bar> \<le> 1 / 10000000000"
  shows "delinearized_python (linearized_python v + e) = v"
proof -
  define t where "t = (real_of_int v / 255 + 0.055) / 1.055"
  have t: "1001 / 10761 \<le> t" "t \<le> 1" "0 < t"
    using v by (simp_all add: t_def field_simps)
  have vt: "real_of_int v = (1.055 * t - 0.055) * 255"
    by (simp add: t_def field_simps)
  have n: "\<not> real_of_int v / 255 \<le> 0.040449936"
    using v by simp
  have L: "linearized_python v = t powr 2.4 * 100"
    using n by (simp add: linearized_python_def Let_def t_def)
  have "(1001 / 10761) powr 2.4 \<le> t powr 2.4"
    using t by (intro powr_mono2) simp_all
  with t0_bound have big: "0.0033 < t powr 2.4"
    by linarith
  have large: "\<not> (linearized_python v + e) / 100 \<le> 0.0031308"
    using big e unfolding L by simp
  define X where "X = (t powr 2.4 + e / 100) powr (1 / 2.4)"
  have "\<bar>X - t\<bar> \<le> 0.0018"
    unfolding X_def
  proof (rule powr_root_perturbation)
    show "\<bar>e / 100\<bar> \<le> 0.0018 * t powr 2.4"
      using big e by simp
  qed (use t in simp_all)
  then have "X - t \<le> 0.0018" "- 0.0018 \<le> X - t"
    by linarith+
  then have "\<bar>269.025 * (X - t)\<bar> < 1 / 2"
    by (simp add: abs_less_iff)
  moreover have "(1.055 * X - 0.055) * 255 - real_of_int v = 269.025 * (X - t)"
    unfolding vt by (simp add: algebra_simps)
  ultimately have "\<bar>(1.055 * X - 0.055) * 255 - real_of_int v\<bar> < 1 / 2"
    by (simp only:)
  then have "py_round ((1.055 * X - 0.055) * 255) = v"
    by (rule py_round_near)
  moreover have "(linearized_python v + e) / 100 = t powr 2.4 + e / 100"
    unfolding L by simp
  ultimately have r:
    "py_round ((1.055 * ((linearized_python v + e) / 100) powr (1 / 2.4) - 0.055) * 255) = v"
    unfolding X_def by (simp only:)
  show ?thesis
    unfolding delinearized_python_high [OF large] r using v by (simp add: clampInt_def)
qed

lemma delinearized_linearized_python:
  assumes "0 \<le> v" "v \<le> 255" "\<bar>e\<bar> \<le> 1 / 10000000000"
  shows "delinearized_python (linearized_python v + e) = v"
proof (cases "v \<le> 10")
  case True
  with assms show ?thesis by (intro delinearized_linearized_low)
next
  case False
  with assms show ?thesis by (intro delinearized_linearized_high) simp_all
qed

lemma linearized_python_range:
  assumes "0 \<le> v" "v \<le> 255"
  shows "0 \<le> linearized_python v \<and> linearized_python v \<le> 100"
proof (cases "real_of_int v / 255 \<le> 0.040449936")
  case True
  then have "linearized_python v = real_of_int v / 255 / 12.92 * 100"
    by (simp add: linearized_python_def Let_def)
  with assms True show ?thesis by simp
next
  case False
  then have L: "linearized_python v = ((real_of_int v / 255 + 0.055) / 1.055) powr 2.4 * 100"
    by (simp add: linearized_python_def Let_def)
  have "((real_of_int v / 255 + 0.055) / 1.055) powr 2.4 \<le> 1"
    using assms by (intro powr_le1) simp_all
  then show ?thesis unfolding L by simp
qed


subsection \<open>The two matrices\<close>

lemma xyz_round_trip_error:
  fixes a b c :: real
  assumes "0 \<le> a" "a \<le> 100" "0 \<le> b" "b \<le> 100" "0 \<le> c" "c \<le> 100"
  shows "case matrixMultiply (a, b, c) SRGB_TO_XYZ of (x, y, z) \<Rightarrow>
      case XYZ_TO_SRGB of ((m00, m01, m02), (m10, m11, m12), (m20, m21, m22)) \<Rightarrow>
        \<bar>m00 * x + m01 * y + m02 * z - a\<bar> \<le> 1 / 10000000000
        \<and> \<bar>m10 * x + m11 * y + m12 * z - b\<bar> \<le> 1 / 10000000000
        \<and> \<bar>m20 * x + m21 * y + m22 * z - c\<bar> \<le> 1 / 10000000000"
proof -
  define x where "x = 0.41233895 * a + 0.35762064 * b + 0.18051042 * c"
  define y where "y = 0.2126 * a + 0.7152 * b + 0.0722 * c"
  define z where "z = 0.01932141 * a + 0.11916382 * b + 0.95034478 * c"
  have r: "3.2413774792388685 * x + - 1.5376652402851851 * y + - 0.49885366846268053 * z - a
      = - (360010723 / 10000000000000000000000000) * a - (285342923 / 5000000000000000000000000) * b
        + (12733183 / 5000000000000000000000000) * c"
    unfolding x_def y_def z_def by (simp add: algebra_simps add_divide_distrib)
  have g: "- 0.9691452513005321 * x + 1.8758853451067872 * y + 0.04156585616912061 * z - b
      = (268099651 / 10000000000000000000000000) * a + (307128931 / 5000000000000000000000000) * b
        + (45747169 / 5000000000000000000000000) * c"
    unfolding x_def y_def z_def by (simp add: algebra_simps add_divide_distrib)
  have bl: "0.05562093689691305 * x + - 0.20395524564742123 * y + 1.0571799111220335 * z - c
      = (427013 / 400000000000000000000000) * a - (3351339 / 500000000000000000000000) * b
        - (61736889 / 1000000000000000000000000) * c"
    unfolding x_def y_def z_def by (simp add: algebra_simps add_divide_distrib)
  have "\<bar>3.2413774792388685 * x + - 1.5376652402851851 * y + - 0.49885366846268053 * z - a\<bar>
      \<le> 1 / 10000000000"
    unfolding r abs_le_iff using assms by (intro conjI) linarith+
  moreover have
    "\<bar>- 0.9691452513005321 * x + 1.8758853451067872 * y + 0.04156585616912061 * z - b\<bar>
      \<le> 1 / 10000000000"
    unfolding g abs_le_iff using assms by (intro conjI) linarith+
  moreover have
    "\<bar>0.05562093689691305 * x + - 0.20395524564742123 * y + 1.0571799111220335 * z - c\<bar>
      \<le> 1 / 10000000000"
    unfolding bl abs_le_iff using assms by (intro conjI) linarith+
  ultimately show ?thesis
    unfolding x_def y_def z_def
    by (simp add: matrixMultiply_def SRGB_TO_XYZ_def XYZ_TO_SRGB_def Let_def)
qed

subsection \<open>Unpacking and packing a colour\<close>

lemma argbFromRgb_eq:
  "argbFromRgb r g b =
     push_bit 24 255 OR push_bit 16 (r AND 255) OR push_bit 8 (g AND 255) OR (b AND 255)"
proof -
  have "0 \<le> (push_bit 24 255 OR push_bit 16 (r AND 255) OR push_bit 8 (g AND 255)
         OR (b AND 255) :: int)"
    by simp
  then show ?thesis
    unfolding argbFromRgb_def rshift_python_def by simp
qed

lemma valid_argb_repacked:
  assumes "0xFF000000 \<le> c" "c \<le> 0xFFFFFFFF"
  shows "argbFromRgb (redFromArgb c) (greenFromArgb c) (blueFromArgb c) = c"
proof -
  define k where "k = c - 4278190080"
  have k: "0 \<le> k" "k < 16777216" "c = k + 255 * 16777216"
    using assms by (simp_all add: k_def)
  have "c div 16777216 = 255"
    unfolding k(3) using k(1,2) by simp
  then have top: "drop_bit 24 c = mask 8"
    by (simp add: drop_bit_eq_div mask_8)
  have high: "bit c n \<longleftrightarrow> n < 32" if "24 \<le> n" for n
  proof -
    have "bit c n \<longleftrightarrow> bit (drop_bit 24 c) (n - 24)"
      using that by (simp add: bit_drop_bit_eq)
    also have "\<dots> \<longleftrightarrow> n - 24 < 8"
      unfolding top by (simp add: bit_mask_iff)
    finally show ?thesis using that by auto
  qed
  have "push_bit 24 (mask 8) OR push_bit 16 (take_bit 8 (drop_bit 16 c))
          OR push_bit 8 (take_bit 8 (drop_bit 8 c)) OR take_bit 8 c = c"
  proof (rule bit_eqI)
    fix n :: nat
    consider "n < 8" | "8 \<le> n" "n < 16" | "16 \<le> n" "n < 24" | "24 \<le> n"
      by linarith
    then show "bit (push_bit 24 (mask 8) OR push_bit 16 (take_bit 8 (drop_bit 16 c))
          OR push_bit 8 (take_bit 8 (drop_bit 8 c)) OR take_bit 8 c) n = bit c n"
    proof cases
      case 1
      then show ?thesis by (simp add: bit_simps)
    next
      case 2
      then have "n - 8 < 8" by linarith
      with 2 show ?thesis by (auto simp add: bit_simps)
    next
      case 3
      then have "n - 16 < 8" by linarith
      with 3 show ?thesis by (auto simp add: bit_simps)
    next
      case 4
      then show ?thesis using high [of n] by (auto simp add: bit_simps)
    qed
  qed
  then show ?thesis
    by (simp only: argbFromRgb_eq redFromArgb_def greenFromArgb_def blueFromArgb_def
        mask_8 take_bit_take_bit min.idem flip: take_bit_eq_mask)
qed

lemma channels_of_argb_in_range:
  "0 \<le> redFromArgb c \<and> redFromArgb c \<le> 255
   \<and> 0 \<le> greenFromArgb c \<and> greenFromArgb c \<le> 255
   \<and> 0 \<le> blueFromArgb c \<and> blueFromArgb c \<le> 255"
proof -
  have "0 \<le> take_bit 8 x \<and> take_bit 8 x \<le> 255" for x :: int
    using take_bit_int_less_exp [of 8 x] by simp
  then show ?thesis
    unfolding redFromArgb_def greenFromArgb_def blueFromArgb_def and_255_take_bit
    by blast
qed

subsection \<open>The round trip\<close>

lemma xyz_round_trip_camelCase:
  assumes "0xFF000000 \<le> c" "c \<le> 0xFFFFFFFF"
  shows "(case xyzFromArgb c of (x, y, z) \<Rightarrow> argbFromXyz x y z) = c"
proof -
  define r g b where "r = redFromArgb c" and "g = greenFromArgb c" and "b = blueFromArgb c"
  have ch: "0 \<le> r" "r \<le> 255" "0 \<le> g" "g \<le> 255" "0 \<le> b" "b \<le> 255"
    using channels_of_argb_in_range [of c] by (simp_all add: r_def g_def b_def)
  obtain x y z where xyz: "matrixMultiply (linearized_python r, linearized_python g,
      linearized_python b) SRGB_TO_XYZ = (x, y, z)"
    by (metis prod_cases3)
  obtain m00 m01 m02 m10 m11 m12 m20 m21 m22 where
    m: "XYZ_TO_SRGB = ((m00, m01, m02), (m10, m11, m12), (m20, m21, m22))"
    by (metis prod_cases3)
  have err: "\<bar>m00 * x + m01 * y + m02 * z - linearized_python r\<bar> \<le> 1 / 10000000000"
    "\<bar>m10 * x + m11 * y + m12 * z - linearized_python g\<bar> \<le> 1 / 10000000000"
    "\<bar>m20 * x + m21 * y + m22 * z - linearized_python b\<bar> \<le> 1 / 10000000000"
    using xyz_round_trip_error [of "linearized_python r" "linearized_python g"
        "linearized_python b"]
      linearized_python_range [of r] linearized_python_range [of g]
      linearized_python_range [of b] ch
    unfolding xyz m by simp_all
  have undo: "delinearized_python (m00 * x + m01 * y + m02 * z) = r"
    "delinearized_python (m10 * x + m11 * y + m12 * z) = g"
    "delinearized_python (m20 * x + m21 * y + m22 * z) = b"
    using delinearized_linearized_python [OF ch(1,2) err(1)]
      delinearized_linearized_python [OF ch(3,4) err(2)]
      delinearized_linearized_python [OF ch(5,6) err(3)]
    by (simp_all add: add.assoc)
  have "(case xyzFromArgb c of (x, y, z) \<Rightarrow> argbFromXyz x y z) = argbFromRgb r g b"
    unfolding xyzFromArgb_def Let_def
    by (simp add: xyz [unfolded r_def g_def b_def] argbFromXyz_def m Let_def
        undo)
  also have "\<dots> = c"
    unfolding r_def g_def b_def by (rule valid_argb_repacked [OF assms])
  finally show ?thesis .
qed

section \<open>The round trip ARGB to XYZ to ARGB in the snake\_case tree\<close>

text \<open>
  Claim C1: for every valid ARGB colour \<open>c\<close>, \<^verbatim>\<open>argb_from_xyz\<close> applied to the three
  components of \<^verbatim>\<open>xyz_from_argb(c)\<close> returns \<open>c\<close>, in both module trees.

  The camelCase tree does so on every opaque colour, as shown above. In the snake\_case
  tree the round trip of \<open>0xFF000500\<close> (green channel 5) returns \<open>0xFF000600\<close> (green
  channel 6): \<^verbatim>\<open>matrix_multiply\<close> is \<^verbatim>\<open>np.dot(row, matrix)\<close>, which multiplies by the
  transpose of \<^verbatim>\<open>SRGB_TO_XYZ\<close>.
\<close>

theorem xyz_round_trip_snake_case_at_0xFF000500:
  "(case xyz_from_argb 0xFF000500 of (x, y, z) \<Rightarrow> argb_from_xyz x y z) = 0xFF000600"
  by (simp add: snake_case_defs shared_defs)

section \<open>The two trees against each other\<close>

text \<open>Apart from the product of a vector and a matrix, the functions compared here are
  the same in both trees.\<close>

lemma trees_agree_elsewhere:
  "linearized v = linearized_python v"
  "delinearized x = delinearized_python x"
  "argb_from_rgb r g b = argbFromRgb r g b"
  "argb_from_xyz x y z = argbFromXyz x y z"
  "red_from_argb c = redFromArgb c"
  "green_from_argb c = greenFromArgb c"
  "blue_from_argb c = blueFromArgb c"
  by (simp_all add: snake_case_defs camelCase_defs)

text \<open>\<^verbatim>\<open>matrix_multiply\<close> of the snake\_case tree is \<^verbatim>\<open>matrixMultiply\<close> of the
  camelCase tree on the transposed matrix.\<close>

lemma matrix_multiply_is_transposed_matrixMultiply:
  "matrix_multiply (r0, r1, r2) ((a, b, c), (d, e, f), (g, h, i)) =
   matrixMultiply (r0, r1, r2) ((a, d, g), (b, e, h), (c, f, i))"
  by (simp add: matrix_multiply_def matrixMultiply_def)

text \<open>
  Claim C2: the two module trees implement the same math: \<^verbatim>\<open>xyz_from_argb(c)\<close> equals
  \<^verbatim>\<open>xyzFromArgb(c)\<close> component-wise for every ARGB colour \<open>c\<close>, and
  \<^verbatim>\<open>matrix_multiply(row, matrix)\<close> equals \<^verbatim>\<open>matrixMultiply(row, matrix)\<close>.

  On pure red, \<open>0xFFFF0000\<close>, the two functions differ in the Y and Z components: the
  snake\_case tree returns 100 times the first row of \<^verbatim>\<open>SRGB_TO_XYZ\<close>, the camelCase
  tree 100 times its first column.
\<close>

theorem xyz_from_argb_differs_between_trees:
  "xyz_from_argb 0xFFFF0000 = (41.233895, 35.762064, 18.051042) \<and>
   xyzFromArgb 0xFFFF0000 = (41.233895, 21.26, 1.932141) \<and>
   matrix_multiply (100, 0, 0) SRGB_TO_XYZ \<noteq> matrixMultiply (100, 0, 0) SRGB_TO_XYZ"
  by (simp add: snake_case_defs camelCase_defs shared_defs)

section \<open>Interpolation in CAM16-UCS\<close>

text \<open>The a* coordinate handed to \<^verbatim>\<open>from_ucs\<close> is interpolated towards the b* of the
  target colour.\<close>

lemma cam16_ucs_coordinates_lerp:
  "cam16_ucs_coordinates from_cam to_cam amount =
     (lerp (cam_jstar from_cam) (cam_jstar to_cam) amount,
      lerp (cam_astar from_cam) (cam_bstar to_cam) amount,
      lerp (cam_bstar from_cam) (cam_bstar to_cam) amount)"
  by (simp add: cam16_ucs_coordinates_def lerp_def Let_def algebra_simps)

lemma cam16_ucs_interpolation:
  "cam16_ucs DEFAULT from_v to amount =
     bind_err (from_int DEFAULT from_v) (\<lambda>from_cam.
     bind_err (from_int DEFAULT to) (\<lambda>to_cam.
     bind_err (from_ucs DEFAULT
         (lerp (cam_jstar from_cam) (cam_jstar to_cam) amount)
         (lerp (cam_astar from_cam) (cam_bstar to_cam) amount)
         (lerp (cam_bstar from_cam) (cam_bstar to_cam) amount))
       (to_int DEFAULT)))"
  by (simp add: cam16_ucs_def cam16_ucs_coordinates_lerp)

text \<open>
  Claim C3: \<^verbatim>\<open>Blend.cam16_ucs(from, to, amount)\<close> interpolates each of J*, a* and b*
  independently between the two colours: a* is \<open>lerp(from.astar, to.astar, amount)\<close>.

  For a start colour with (J*, a*, b*) = (10, 1, 2), a target with (20, 3, 7) and amount
  1/2, the code hands a* = 4 to \<^verbatim>\<open>from_ucs\<close>, which is halfway between 1 and the b* of
  the target; the interpolation of the claim gives a* = 2.
\<close>

theorem cam16_ucs_astar_uses_bstar_of_target:
  "cam16_ucs_coordinates (Cam16 0 0 0 0 0 0 10 1 2) (Cam16 0 0 0 0 0 0 20 3 7) (1 / 2)
     = (15, 4, 9 / 2)
   \<and> lerp 1 3 (1 / 2) = 2"
  by (simp add: cam16_ucs_coordinates_def Cam16_def lerp_def Let_def)

section \<open>Concrete values of packing and lightness\<close>

lemma concrete_values_camelCase:
  "argbFromRgb 255 255 255 = 0xFFFFFFFF \<and> lstarFromArgb 0xFFFFFFFF = 100
   \<and> lstarFromArgb 0xFF000000 = 0"
  by (simp add: camelCase_defs shared_defs lstarFromArgb_def)

text \<open>
  Claim C4: \<^verbatim>\<open>argb_from_rgb(255, 255, 255) == 0xFFFFFFFF\<close>,
  \<^verbatim>\<open>lstar_from_argb(0xFFFFFFFF)\<close> is about 100 and \<^verbatim>\<open>lstar_from_argb(0xFF000000)\<close> is
  about 0, in both module trees.

  In the snake\_case tree the packing and the lightness of black are as claimed, but the
  lightness of white is above 106: the Y component of \<^verbatim>\<open>xyz_from_argb\<close> is 119.198446
  there, the sum of the middle column of \<^verbatim>\<open>SRGB_TO_XYZ\<close> times 100.
\<close>

theorem lstar_from_argb_white_snake_case:
  "argb_from_rgb 255 255 255 = 0xFFFFFFFF
   \<and> lstar_from_argb 0xFF000000 = 0
   \<and> fst (snd (xyz_from_argb 0xFFFFFFFF)) = 119.198446
   \<and> 106 < lstar_from_argb 0xFFFFFFFF"
  using cube_root_bound by (simp add: snake_case_defs shared_defs lstar_from_argb_def)

section \<open>Division by zero in \<^verbatim>\<open>Cam16.viewed\<close>\<close>

text \<open>
  The bound on \<open>aw\<close> against \<open>nbb\<close> in the theorem below is needed. For a colour with
  chroma 0 and J = 122000 under viewing conditions whose attributes are all 1, \<open>p2\<close> is
  1220, \<open>rA = 460 * 1220 / 1403 = 400\<close>, and \<open>400.0 - abs(rA)\<close> is zero.
\<close>

lemma viewed_zero_denominator_at_J_122000:
  "viewed (Cam16 0 0 122000 0 0 0 0 0 0)
     \<lparr>vc_n = 1, vc_aw = 1, vc_nbb = 1, vc_ncb = 1, vc_c = 1, vc_nc = 1,
      vc_rgbD = (1, 1, 1), vc_fl = 1, vc_fLRoot = 1, vc_z = 1\<rparr>
   = Inl ZeroDivisionError"
  by (rule viewed_achromatic(2) [where ?d0.0 = 1 and ?d1.0 = 1 and ?d2.0 = 1])
    (simp_all add: Cam16_def)



section \<open>The angular distance\<close>

text \<open>
  Claim C8, as stated: \<^verbatim>\<open>difference_degrees(a, b)\<close> lies in [0, 180] for all degree
  values. It is negative for \<open>a = 0\<close> and \<open>b = 400\<close>, in both trees.
\<close>

theorem difference_degrees_negative_at_0_400:
  "\<not> (0 \<le> difference_degrees 0 400 \<and> difference_degrees 0 400 \<le> 180)
   \<and> \<not> (0 \<le> differenceDegrees 0 400 \<and> differenceDegrees 0 400 \<le> 180)"
  by (simp add: difference_degrees_def differenceDegrees_def)

text \<open>
  Claim C8, amended: for all \<open>a\<close>, \<open>b\<close> and \<open>x\<close>, \<^verbatim>\<open>difference_degrees\<close> is symmetric,
  is 0 on equal arguments and is at most 180; it is at least 0 exactly when \<open>a\<close> and \<open>b\<close>
  are at most 360 apart, as any two sanitized degrees in [0, 360) are. The camelCase
  \<^verbatim>\<open>differenceDegrees\<close> is the same function.
\<close>

theorem difference_degrees_symmetric_bounded:
  "difference_degrees a b = difference_degrees b a
   \<and> difference_degrees x x = 0
   \<and> difference_degrees a b \<le> 180
   \<and> (0 \<le> difference_degrees a b) = (\<bar>a - b\<bar> \<le> 360)
   \<and> differenceDegrees a b = difference_degrees a b"
  by (simp add: difference_degrees_def differenceDegrees_def abs_minus_commute) linarith

section \<open>Clamping\<close>

text \<open>
  Claim C9, as stated: the clamp operations raise or assert when called with
  \<open>min > max\<close>. There is no \<^verbatim>\<open>raise\<close> and no \<^verbatim>\<open>assert\<close> in the four functions: with
  \<open>min = 10\<close>, \<open>max = 0\<close> and input 5 each of them returns 10.
\<close>

theorem clamp_returns_when_min_exceeds_max:
  "clamp_int 10 0 5 = 10 \<and> clamp_double 10 0 5 = 10
   \<and> clampInt 10 0 5 = 10 \<and> clampDouble 10 0 5 = 10"
  by (simp add: clamp_int_def clamp_double_def clampInt_def clampDouble_def)

text \<open>
  Claim C9, amended: the clamp operations never raise. For \<open>min \<le> max\<close> they return the
  input saturated into [min, max]; for \<open>min > max\<close> they return \<open>min\<close> when the input is
  below \<open>min\<close> and \<open>max\<close> otherwise.
\<close>

theorem clamp_saturates:
  "clamp_int mn mx i = (if mn \<le> mx then max mn (min mx i) else if i < mn then mn else mx)
   \<and> clampInt mn mx i = (if mn \<le> mx then max mn (min mx i) else if i < mn then mn else mx)
   \<and> clamp_double lo hi v = (if lo \<le> hi then max lo (min hi v) else if v < lo then lo else hi)
   \<and> clampDouble lo hi v = (if lo \<le> hi then max lo (min hi v) else if v < lo then lo else hi)"
  by (auto simp add: clamp_int_def clamp_double_def clampInt_def clampDouble_def)

section \<open>Channels stay in range\<close>

text \<open>
  Claim C10: every conversion that produces an ARGB colour yields channels in [0, 255]:
  for every real input \<^verbatim>\<open>delinearized\<close> returns an integer in [0, 255], obtained by
  rounding and then clamping, so \<^verbatim>\<open>argb_from_xyz\<close>, \<^verbatim>\<open>argb_From_lstar\<close> and
  \<^verbatim>\<open>argd_from_lab\<close> never produce a channel out of range.

  \<^verbatim>\<open>argb_from_rgb\<close> masks its arguments and returns a value from \<open>0xFF000000\<close> to
  \<open>0xFFFFFFFF\<close>. Each of the three conversions returns
  \<open>0xFF000000 + 65536 * r + 256 * g + b\<close> for channels \<open>r\<close>, \<open>g\<close>, \<open>b\<close> in [0, 255],
  which are what \<^verbatim>\<open>red_from_argb\<close>, \<^verbatim>\<open>green_from_argb\<close> and \<^verbatim>\<open>blue_from_argb\<close> read
  back.
\<close>

theorem conversions_keep_channels_in_range:
  "0 \<le> delinearized c \<and> delinearized c \<le> 255
   \<and> delinearized c =
       max 0 (min 255 (py_round ((if c / 100 \<le> 0.0031308 then c / 100 * 12.92
                                  else 1.055 * (c / 100) powr (1 / 2.4) - 0.055) * 255)))
   \<and> 4278190080 \<le> argb_from_rgb red green blue \<and> argb_from_rgb red green blue \<le> 4294967295
   \<and> (\<exists>r g b. 0 \<le> r \<and> r \<le> 255 \<and> 0 \<le> g \<and> g \<le> 255 \<and> 0 \<le> b \<and> b \<le> 255
        \<and> argb_from_xyz x y z = 4278190080 + 65536 * r + 256 * g + b
        \<and> red_from_argb (argb_from_xyz x y z) = r
        \<and> green_from_argb (argb_from_xyz x y z) = g
        \<and> blue_from_argb (argb_from_xyz x y z) = b)
   \<and> (\<exists>r g b. 0 \<le> r \<and> r \<le> 255 \<and> 0 \<le> g \<and> g \<le> 255 \<and> 0 \<le> b \<and> b \<le> 255
        \<and> argb_From_lstar lstar = 4278190080 + 65536 * r + 256 * g + b
        \<and> red_from_argb (argb_From_lstar lstar) = r
        \<and> green_from_argb (argb_From_lstar lstar) = g
        \<and> blue_from_argb (argb_From_lstar lstar) = b)
   \<and> (\<exists>r g b. 0 \<le> r \<and> r \<le> 255 \<and> 0 \<le> g \<and> g \<le> 255 \<and> 0 \<le> b \<and> b \<le> 255
        \<and> argd_from_lab l a' b' = 4278190080 + 65536 * r + 256 * g + b
        \<and> red_from_argb (argd_from_lab l a' b') = r
        \<and> green_from_argb (argd_from_lab l a' b') = g
        \<and> blue_from_argb (argd_from_lab l a' b') = b)"
proof -
  have lstar: "\<exists>x y z. argb_From_lstar lstar = argb_from_xyz x y z"
    by (simp add: argb_From_lstar_def WHITE_POINT_D65_def Let_def) blast
  have lab: "\<exists>x y z. argd_from_lab l a' b' = argb_from_xyz x y z"
    by (simp add: argd_from_lab_def WHITE_POINT_D65_def Let_def) blast
  have round: "delinearized c =
       max 0 (min 255 (py_round ((if c / 100 \<le> 0.0031308 then c / 100 * 12.92
                                  else 1.055 * (c / 100) powr (1 / 2.4) - 0.055) * 255)))"
    by (simp add: delinearized_def clamp_int_def Let_def)
  have packed: "4278190080 \<le> argb_from_rgb red green blue
      \<and> argb_from_rgb red green blue \<le> 4294967295"
    using channel_byte [of red] channel_byte [of green] channel_byte [of blue]
    unfolding argb_from_rgb_sum by linarith
  have rest: "(\<exists>r g b. 0 \<le> r \<and> r \<le> 255 \<and> 0 \<le> g \<and> g \<le> 255 \<and> 0 \<le> b \<and> b \<le> 255
        \<and> argb_From_lstar lstar = 4278190080 + 65536 * r + 256 * g + b
        \<and> red_from_argb (argb_From_lstar lstar) = r
        \<and> green_from_argb (argb_From_lstar lstar) = g
        \<and> blue_from_argb (argb_From_lstar lstar) = b)
   \<and> (\<exists>r g b. 0 \<le> r \<and> r \<le> 255 \<and> 0 \<le> g \<and> g \<le> 255 \<and> 0 \<le> b \<and> b \<le> 255
        \<and> argd_from_lab l a' b' = 4278190080 + 65536 * r + 256 * g + b
        \<and> red_from_argb (argd_from_lab l a' b') = r
        \<and> green_from_argb (argd_from_lab l a' b') = g
        \<and> blue_from_argb (argd_from_lab l a' b') = b)"
    using lstar lab argb_from_xyz_channels by (metis (no_types, lifting))
  have xyz: "\<exists>r g b. 0 \<le> r \<and> r \<le> 255 \<and> 0 \<le> g \<and> g \<le> 255 \<and> 0 \<le> b \<and> b \<le> 255
        \<and> argb_from_xyz x y z = 4278190080 + 65536 * r + 256 * g + b
        \<and> red_from_argb (argb_from_xyz x y z) = r
        \<and> green_from_argb (argb_from_xyz x y z) = g
        \<and> blue_from_argb (argb_from_xyz x y z) = b"
    using argb_from_xyz_channels [of x y z] by blast
  from delinearized_range [of c] round packed xyz rest show ?thesis
    by (intro conjI) (erule conjunct1 conjunct2 | assumption)+
qed


end
